theory Spec2Isabelle
  imports Complex_Main
begin

section \<open>The robot simulator of \<open>simulator_server.py\<close>\<close>

text \<open>
  The simulator keeps one shared command string, written by the HTTP handler
  \<open>receive_command\<close> and by the keyboard, and a pygame loop \<open>simulate\<close> that reads the
  command once per frame and updates the robot's velocity, its position and a trail of
  earlier positions. Python's numbers (ints and binary floats, mixed freely by the
  source) are modelled as exact reals, as the data model of the specification has them;
  rounding of floating-point operations is outside the model.
\<close>

subsection \<open>Configuration\<close>

definition WIDTH :: int where
  "WIDTH = 800"

definition HEIGHT :: int where
  "HEIGHT = 600"

definition ROBOT_SIZE :: int where
  "ROBOT_SIZE = 40"

definition robot_speed :: int where
  "robot_speed = 4"

text \<open>The locals of \<open>simulate\<close> that configure the physics and the trail.\<close>

definition acceleration :: real where
  "acceleration = 0.6"

definition max_speed :: real where
  "max_speed = of_int robot_speed"

definition friction :: real where
  "friction = 0.92"

definition max_trail :: nat where
  "max_trail = 150"

subsection \<open>The command store and its writers\<close>

text \<open>
  \<open>request.args.get('cmd', 'S')\<close>: the query arguments are a dictionary, and a missing
  key gives the default.
\<close>

definition args_get :: "(string \<rightharpoonup> string) \<Rightarrow> string \<Rightarrow> string \<Rightarrow> string" where
  "args_get args k d = (case args k of None \<Rightarrow> d | Some v \<Rightarrow> v)"

text \<open>
  The JSON answer of \<open>receive_command\<close>; its timestamp is the wall clock, passed in.
\<close>

record response =
  status :: string
  command :: string
  timestamp :: real

text \<open>
  \<open>receive_command\<close> takes the request's arguments, the clock and the global
  \<open>robot_command\<close>; it returns the new value of the global and the answer.
\<close>

definition receive_command :: "(string \<rightharpoonup> string) \<Rightarrow> real \<Rightarrow> string \<Rightarrow> string \<times> response" where
  "receive_command args now robot_command =
     (let cmd = args_get args ''cmd'' ''S''
      in (cmd, \<lparr>status = ''success'', command = cmd, timestamp = now\<rparr>))"

text \<open>The keys the pygame loop reacts to; any other key leaves the command alone.\<close>

datatype key = K_w | K_s | K_a | K_d | K_SPACE | K_other

fun keydown :: "key \<Rightarrow> string \<Rightarrow> string" where
  "keydown K_w robot_command = ''F''"
| "keydown K_s robot_command = ''B''"
| "keydown K_a robot_command = ''L''"
| "keydown K_d robot_command = ''R''"
| "keydown K_SPACE robot_command = ''S''"
| "keydown K_other robot_command = robot_command"

subsection \<open>One frame of the simulation loop\<close>

text \<open>
  The state the loop carries from frame to frame: \<open>robot_velocity\<close> and \<open>robot_pos\<close>
  are two-element lists in the source (index 0 is x, index 1 is y), here pairs;
  \<open>trail_points\<close> is the list of recorded positions, oldest first.
\<close>

record sim =
  robot_velocity :: "real \<times> real"
  robot_pos :: "real \<times> real"
  trail_points :: "(real \<times> real) list"

text \<open>The state \<open>simulate\<close> starts from.\<close>

definition init :: sim where
  "init = \<lparr>robot_velocity = (0, 0),
           robot_pos = (of_int (WIDTH div 2), of_int (HEIGHT div 2)),
           trail_points = []\<rparr>"

text \<open>The target velocity of a command: the \<open>if\<close>/\<open>elif\<close> chain on \<open>current_cmd\<close>.\<close>

definition target_vel :: "string \<Rightarrow> real \<times> real" where
  "target_vel current_cmd =
     (if current_cmd = ''F'' then (0, - max_speed)
      else if current_cmd = ''B'' then (0, max_speed)
      else if current_cmd = ''L'' then (- max_speed, 0)
      else if current_cmd = ''R'' then (max_speed, 0)
      else (0, 0))"

text \<open>
  The body of \<open>for i in range(2)\<close> for one axis: \<open>t\<close> is \<open>target_vel[i]\<close> and \<open>v\<close> is
  \<open>robot_velocity[i]\<close>; the result is the new \<open>robot_velocity[i]\<close>.
\<close>

definition smooth :: "real \<Rightarrow> real \<Rightarrow> real" where
  "smooth t v =
     (if t \<noteq> 0 then
        (if v < t then min t (v + acceleration)
         else if v > t then max t (v - acceleration)
         else v)
      else
        (let v' = v * friction in if \<bar>v'\<bar> < 0.1 then 0 else v'))"

text \<open>
  The boundary collision on one axis: \<open>extent\<close> is \<open>WIDTH\<close> for x and \<open>HEIGHT\<close> for y,
  \<open>p\<close> is the integrated position and \<open>v\<close> the velocity on that axis. The result is the
  position and the velocity after the \<open>if\<close>/\<open>elif\<close>.
\<close>

definition bounce :: "int \<Rightarrow> real \<Rightarrow> real \<Rightarrow> real \<times> real" where
  "bounce extent p v =
     (if p \<le> of_int (ROBOT_SIZE div 2) then (of_int (ROBOT_SIZE div 2), \<bar>v\<bar> * 0.7)
      else if p \<ge> of_int (extent - ROBOT_SIZE div 2)
        then (of_int (extent - ROBOT_SIZE div 2), - \<bar>v\<bar> * 0.7)
      else (p, v))"

text \<open>\<open>trail_points.append(old_pos.copy())\<close> followed by the capacity check.\<close>

definition add_to_trail :: "real \<times> real \<Rightarrow> (real \<times> real) list \<Rightarrow> (real \<times> real) list" where
  "add_to_trail old_pos trail =
     (let trail' = trail @ [old_pos]
      in if length trail' > max_trail then tl trail' else trail')"

text \<open>
  One pass through the loop body, from the target velocity to the trail; \<open>current_cmd\<close>
  is the command read under the lock in this frame.
\<close>

definition tick :: "string \<Rightarrow> sim \<Rightarrow> sim" where
  "tick current_cmd s =
     (let vx = smooth (fst (target_vel current_cmd)) (fst (robot_velocity s));
          vy = smooth (snd (target_vel current_cmd)) (snd (robot_velocity s));
          old_pos = robot_pos s;
          cx = bounce WIDTH (fst old_pos + vx) vx;
          cy = bounce HEIGHT (snd old_pos + vy) vy;
          trail =
            (if \<bar>fst cx - fst old_pos\<bar> > 0.5 \<or> \<bar>fst cy - snd old_pos\<bar> > 0.5
             then add_to_trail old_pos (trail_points s)
             else trail_points s)
      in \<lparr>robot_velocity = (snd cx, snd cy),
          robot_pos = (fst cx, fst cy),
          trail_points = trail\<rparr>)"

text \<open>
  The loop over a finite run of frames: the list holds the command read in each frame,
  first frame first.
\<close>

fun run :: "string list \<Rightarrow> sim \<Rightarrow> sim" where
  "run [] s = s"
| "run (c # cs) s = run cs (tick c s)"

subsection \<open>Notions the properties are stated with\<close>

text \<open>
  The arena with the robot's half-extent as margin: where the collision tests of the
  loop keep \<open>robot_pos\<close>.
\<close>

definition in_arena :: "real \<times> real \<Rightarrow> bool" where
  "in_arena p \<longleftrightarrow>
     of_int (ROBOT_SIZE div 2) \<le> fst p \<and> fst p \<le> of_int (WIDTH - ROBOT_SIZE div 2) \<and>
     of_int (ROBOT_SIZE div 2) \<le> snd p \<and> snd p \<le> of_int (HEIGHT - ROBOT_SIZE div 2)"

text \<open>
  The robot is strictly between the two walls of an axis. After a frame this says that
  neither branch of that axis's collision test was taken in the frame: a taken branch
  puts the robot exactly on the wall (lemmas \<open>clear_x_tick\<close> and \<open>clear_y_tick\<close>).
\<close>

definition clear_of_walls_x :: "sim \<Rightarrow> bool" where
  "clear_of_walls_x s \<longleftrightarrow>
     of_int (ROBOT_SIZE div 2) < fst (robot_pos s) \<and>
     fst (robot_pos s) < of_int (WIDTH - ROBOT_SIZE div 2)"

definition clear_of_walls_y :: "sim \<Rightarrow> bool" where
  "clear_of_walls_y s \<longleftrightarrow>
     of_int (ROBOT_SIZE div 2) < snd (robot_pos s) \<and>
     snd (robot_pos s) < of_int (HEIGHT - ROBOT_SIZE div 2)"

text \<open>The test that guards the trail update, on the positions before and after a frame.\<close>

definition moved :: "real \<times> real \<Rightarrow> real \<times> real \<Rightarrow> bool" where
  "moved old_pos pos \<longleftrightarrow> \<bar>fst pos - fst old_pos\<bar> > 0.5 \<or> \<bar>snd pos - snd old_pos\<bar> > 0.5"

text \<open>The five commands the status page documents.\<close>

definition valid_commands :: "string set" where
  "valid_commands = {''F'', ''B'', ''L'', ''R'', ''S''}"

text \<open>
  The two axes never read each other's data, so a frame can be followed on one axis
  alone: \<open>axis_tick\<close> takes the velocity and position of one axis and that axis's
  target, and gives the axis's velocity and position after the frame. The lemmas
  \<open>x_axis_tick\<close> and \<open>y_axis_tick\<close> show that \<open>tick\<close> does exactly this on each axis.
\<close>

definition axis_tick :: "int \<Rightarrow> real \<times> real \<Rightarrow> real \<Rightarrow> real \<times> real" where
  "axis_tick extent vp t =
     (let v = smooth t (fst vp); b = bounce extent (snd vp + v) v in (snd b, fst b))"

definition x_axis :: "sim \<Rightarrow> real \<times> real" where
  "x_axis s = (fst (robot_velocity s), fst (robot_pos s))"

definition y_axis :: "sim \<Rightarrow> real \<times> real" where
  "y_axis s = (snd (robot_velocity s), snd (robot_pos s))"

section \<open>Properties\<close>

subsection \<open>Frames and runs\<close>

lemma keydown_valid: "keydown k robot_command \<in> valid_commands \<or> keydown k robot_command = robot_command"
  by (cases k) (simp_all add: valid_commands_def)

lemma run_append: "run (cs @ ds) s = run ds (run cs s)"
  by (induction cs arbitrary: s) simp_all

lemma run_snoc: "run (cs @ [c]) s = tick c (run cs s)"
  by (simp add: run_append)

lemmas consts_defs =
  WIDTH_def HEIGHT_def ROBOT_SIZE_def robot_speed_def acceleration_def max_speed_def friction_def

lemma tick_vel_x: "fst (robot_velocity (tick c s)) =
  snd (bounce WIDTH (fst (robot_pos s) + smooth (fst (target_vel c)) (fst (robot_velocity s)))
        (smooth (fst (target_vel c)) (fst (robot_velocity s))))"
  by (simp add: tick_def Let_def)

lemma tick_vel_y: "snd (robot_velocity (tick c s)) =
  snd (bounce HEIGHT (snd (robot_pos s) + smooth (snd (target_vel c)) (snd (robot_velocity s)))
        (smooth (snd (target_vel c)) (snd (robot_velocity s))))"
  by (simp add: tick_def Let_def)

lemma tick_pos_x: "fst (robot_pos (tick c s)) =
  fst (bounce WIDTH (fst (robot_pos s) + smooth (fst (target_vel c)) (fst (robot_velocity s)))
        (smooth (fst (target_vel c)) (fst (robot_velocity s))))"
  by (simp add: tick_def Let_def)

lemma tick_pos_y: "snd (robot_pos (tick c s)) =
  fst (bounce HEIGHT (snd (robot_pos s) + smooth (snd (target_vel c)) (snd (robot_velocity s)))
        (smooth (snd (target_vel c)) (snd (robot_velocity s))))"
  by (simp add: tick_def Let_def)

lemma target_vel_cases:
  "fst (target_vel c) = 0 \<or> fst (target_vel c) = max_speed \<or> fst (target_vel c) = - max_speed"
  "snd (target_vel c) = 0 \<or> snd (target_vel c) = max_speed \<or> snd (target_vel c) = - max_speed"
  by (simp_all add: target_vel_def)

lemma smooth_bound:
  assumes "\<bar>v\<bar> \<le> max_speed" and "t = 0 \<or> t = max_speed \<or> t = - max_speed"
  shows "\<bar>smooth t v\<bar> \<le> max_speed"
  using assms by (auto simp: smooth_def Let_def consts_defs)

lemma bounce_vel_le: "\<bar>snd (bounce e p v)\<bar> \<le> \<bar>v\<bar>"
  by (simp add: bounce_def)

lemma bounce_WIDTH:
  "bounce WIDTH p v =
     (if p \<le> 20 then (20, \<bar>v\<bar> * 0.7) else if p \<ge> 780 then (780, - \<bar>v\<bar> * 0.7) else (p, v))"
  by (simp add: bounce_def WIDTH_def ROBOT_SIZE_def)

lemma bounce_HEIGHT:
  "bounce HEIGHT p v =
     (if p \<le> 20 then (20, \<bar>v\<bar> * 0.7) else if p \<ge> 580 then (580, - \<bar>v\<bar> * 0.7) else (p, v))"
  by (simp add: bounce_def HEIGHT_def ROBOT_SIZE_def)

lemma tick_pos_range:
  "20 \<le> fst (robot_pos (tick c s)) \<and> fst (robot_pos (tick c s)) \<le> 780 \<and>
   20 \<le> snd (robot_pos (tick c s)) \<and> snd (robot_pos (tick c s)) \<le> 580"
  by (simp add: tick_pos_x tick_pos_y bounce_WIDTH bounce_HEIGHT)

lemma tick_vel_bound:
  assumes "\<bar>fst (robot_velocity s)\<bar> \<le> max_speed" "\<bar>snd (robot_velocity s)\<bar> \<le> max_speed"
  shows "\<bar>fst (robot_velocity (tick c s))\<bar> \<le> max_speed \<and> \<bar>snd (robot_velocity (tick c s))\<bar> \<le> max_speed"
proof -
  have x: "\<bar>smooth (fst (target_vel c)) (fst (robot_velocity s))\<bar> \<le> max_speed"
    using assms(1) target_vel_cases(1) by (rule smooth_bound)
  have y: "\<bar>smooth (snd (target_vel c)) (snd (robot_velocity s))\<bar> \<le> max_speed"
    using assms(2) target_vel_cases(2) by (rule smooth_bound)
  show ?thesis
    unfolding tick_vel_x tick_vel_y
    using x y bounce_vel_le order_trans by blast
qed

lemma run_vel_bound:
  assumes "\<bar>fst (robot_velocity s)\<bar> \<le> max_speed" "\<bar>snd (robot_velocity s)\<bar> \<le> max_speed"
  shows "\<bar>fst (robot_velocity (run cs s))\<bar> \<le> max_speed \<and> \<bar>snd (robot_velocity (run cs s))\<bar> \<le> max_speed"
  using assms
proof (induction cs arbitrary: s)
  case Nil
  then show ?case by simp
next
  case (Cons c cs)
  show ?case
    using Cons.IH [of "tick c s"] tick_vel_bound [OF Cons.prems] by simp
qed

subsection \<open>One axis at a time\<close>

lemma x_axis_tick: "x_axis (tick c s) = axis_tick WIDTH (x_axis s) (fst (target_vel c))"
  by (simp add: x_axis_def axis_tick_def tick_def Let_def)

lemma y_axis_tick: "y_axis (tick c s) = axis_tick HEIGHT (y_axis s) (snd (target_vel c))"
  by (simp add: y_axis_def axis_tick_def tick_def Let_def)

lemma x_axis_run: "x_axis (run cs s) = foldl (axis_tick WIDTH) (x_axis s) (map (\<lambda>c. fst (target_vel c)) cs)"
  by (induction cs arbitrary: s) (simp_all add: x_axis_tick)

lemma y_axis_run: "y_axis (run cs s) = foldl (axis_tick HEIGHT) (y_axis s) (map (\<lambda>c. snd (target_vel c)) cs)"
  by (induction cs arbitrary: s) (simp_all add: y_axis_tick)

lemma axis_tick_WIDTH:
  "axis_tick WIDTH (v, p) t =
     (if p + smooth t v \<le> 20 then (\<bar>smooth t v\<bar> * 0.7, 20)
      else if p + smooth t v \<ge> 780 then (- \<bar>smooth t v\<bar> * 0.7, 780)
      else (smooth t v, p + smooth t v))"
  by (simp add: axis_tick_def bounce_WIDTH Let_def)

lemma axis_tick_HEIGHT:
  "axis_tick HEIGHT (v, p) t =
     (if p + smooth t v \<le> 20 then (\<bar>smooth t v\<bar> * 0.7, 20)
      else if p + smooth t v \<ge> 580 then (- \<bar>smooth t v\<bar> * 0.7, 580)
      else (smooth t v, p + smooth t v))"
  by (simp add: axis_tick_def bounce_HEIGHT Let_def)

lemma smooth_numeral:
  "smooth 0 v = (if \<bar>v * 0.92\<bar> < 0.1 then 0 else v * 0.92)"
  "smooth 4 v = (if v < 4 then min 4 (v + 0.6) else if v > 4 then max 4 (v - 0.6) else v)"
  "smooth (- 4) v = (if v < - 4 then min (- 4) (v + 0.6) else if v > - 4 then max (- 4) (v - 0.6) else v)"
  by (simp_all add: smooth_def Let_def friction_def acceleration_def)

lemma target_vel_simps:
  "target_vel ''F'' = (0, - 4)" "target_vel ''B'' = (0, 4)"
  "target_vel ''L'' = (- 4, 0)" "target_vel ''R'' = (4, 0)" "target_vel ''S'' = (0, 0)"
  by (simp_all add: target_vel_def max_speed_def robot_speed_def)

lemma y_axis_init: "y_axis init = (0, 300)" "x_axis init = (0, 400)"
  by (simp_all add: y_axis_def x_axis_def init_def HEIGHT_def WIDTH_def)

lemma fwd10: "y_axis (run (replicate 10 ''F'') init) = (- 4, 1357 / 5)"
  unfolding y_axis_run
  by (simp add: y_axis_init target_vel_simps eval_nat_numeral axis_tick_HEIGHT smooth_numeral)

lemma cruise:
  "20 < p - 4 * real n \<Longrightarrow> p < 580 \<Longrightarrow>
   foldl (axis_tick HEIGHT) (- 4, p) (replicate n (- 4)) = (- 4, p - 4 * real n)"
proof (induction n arbitrary: p)
  case 0
  then show ?case by simp
next
  case (Suc n)
  have step: "axis_tick HEIGHT (- 4, p) (- 4) = (- 4, p - 4)"
    using Suc.prems by (simp add: axis_tick_HEIGHT smooth_numeral)
  have "foldl (axis_tick HEIGHT) (- 4, p - 4) (replicate n (- 4)) = (- 4, p - 4 - 4 * real n)"
    using Suc.prems by (intro Suc.IH) simp_all
  then show ?case by (simp add: step algebra_simps)
qed

lemma decay_threshold: "(1 / 10 :: real) \<le> 4 * 0.92 ^ 44" "4 * 0.92 ^ 45 < (1 / 10 :: real)"
  by (simp_all add: power_divide)

lemma decay:
  "n \<le> 44 \<Longrightarrow> 66 < p \<Longrightarrow> p < 580 \<Longrightarrow>
   foldl (axis_tick HEIGHT) (- 4, p) (replicate n 0) = (- (4 * 0.92 ^ n), p - 46 * (1 - 0.92 ^ n))"
proof (induction n)
  case 0
  then show ?case by simp
next
  case (Suc n)
  let ?v = "- (4 * 0.92 ^ n) :: real" and ?q = "p - 46 * (1 - 0.92 ^ n) :: real"
  have IH: "foldl (axis_tick HEIGHT) (- 4, p) (replicate n 0) = (?v, ?q)"
    using Suc by simp
  have "(0.92::real) ^ 44 \<le> 0.92 ^ Suc n"
    using Suc.prems(1) by (intro power_decreasing) simp_all
  then have big: "(1 / 10 :: real) \<le> 4 * 0.92 ^ Suc n"
    using decay_threshold(1) by linarith
  have pw: "0 < (0.92::real) ^ Suc n"
    by simp
  have pw1: "(0.92::real) ^ Suc n \<le> 1"
    by (rule power_le_one) simp_all
  have sm: "smooth 0 ?v = - (4 * 0.92 ^ Suc n)"
    using big by (simp add: smooth_numeral)
  have pos: "?q + - (4 * 0.92 ^ Suc n) = p - 46 * (1 - 0.92 ^ Suc n)"
    by (simp add: algebra_simps)
  have inside: "\<not> r \<le> 20 \<and> \<not> 580 \<le> r" if "r = p - 46 * (1 - 0.92 ^ Suc n)" for r
  proof -
    have "\<And>w::real. 0 < w \<Longrightarrow> w \<le> 1 \<Longrightarrow> \<not> p - 46 * (1 - w) \<le> 20 \<and> \<not> 580 \<le> p - 46 * (1 - w)"
      using Suc.prems(2,3) by (auto simp: algebra_simps)
    from this [OF pw pw1] that show ?thesis by blast
  qed
  have step: "axis_tick HEIGHT (?v, ?q) 0 = (- (4 * 0.92 ^ Suc n), p - 46 * (1 - 0.92 ^ Suc n))"
    unfolding axis_tick_HEIGHT sm pos using inside [OF refl] by (simp only: if_False)
  have "replicate (Suc n) (0::real) = replicate n 0 @ [0]"
    by (simp only: replicate_append_same replicate_Suc)
  then have "foldl (axis_tick HEIGHT) (- 4, p) (replicate (Suc n) 0) =
      axis_tick HEIGHT (foldl (axis_tick HEIGHT) (- 4, p) (replicate n 0)) 0"
    by (simp only: foldl_append foldl_Cons foldl_Nil)
  also have "\<dots> = axis_tick HEIGHT (?v, ?q) 0"
    by (simp only: IH)
  finally show ?case
    by (simp only: step)
qed


subsection \<open>Decay under a zero target\<close>

lemma smooth_zero_abs: "\<bar>smooth 0 v\<bar> \<le> 0.92 * \<bar>v\<bar>"
  by (simp add: smooth_numeral abs_mult)

lemma smooth_zero_snap: "0.92 * \<bar>v\<bar> < 0.1 \<Longrightarrow> smooth 0 v = 0"
  by (simp add: smooth_numeral abs_mult mult.commute)

lemma bounce_vel_zero: "snd (bounce e p 0) = 0"
  by (simp add: bounce_def)

lemma axis_tick_zero_abs: "\<bar>fst (axis_tick e vp 0)\<bar> \<le> 0.92 * \<bar>fst vp\<bar>"
proof -
  have "\<bar>fst (axis_tick e vp 0)\<bar> \<le> \<bar>smooth 0 (fst vp)\<bar>"
    by (simp add: axis_tick_def Let_def bounce_vel_le)
  then show ?thesis
    using smooth_zero_abs [of "fst vp"] by linarith
qed

lemma axis_tick_zero_snap: "0.92 * \<bar>fst vp\<bar> < 0.1 \<Longrightarrow> fst (axis_tick e vp 0) = 0"
  by (simp only: axis_tick_def Let_def smooth_zero_snap bounce_vel_zero fst_conv)

lemma foldl_zero_abs:
  "\<forall>t\<in>set ts. t = 0 \<Longrightarrow> \<bar>fst (foldl (axis_tick e) vp ts)\<bar> \<le> 0.92 ^ length ts * \<bar>fst vp\<bar>"
proof (induction ts arbitrary: vp)
  case Nil
  then show ?case by simp
next
  case (Cons t ts)
  then have t: "t = 0" and rest: "\<forall>t\<in>set ts. t = 0"
    by simp_all
  have "\<bar>fst (foldl (axis_tick e) (axis_tick e vp 0) ts)\<bar> \<le> 0.92 ^ length ts * \<bar>fst (axis_tick e vp 0)\<bar>"
    using rest by (rule Cons.IH)
  also have "\<dots> \<le> 0.92 ^ length ts * (0.92 * \<bar>fst vp\<bar>)"
    by (intro mult_left_mono axis_tick_zero_abs) simp
  finally show ?case
    by (simp add: t)
qed

lemma foldl_zero_snap:
  assumes "\<forall>t\<in>set ts. t = 0" and "ts \<noteq> []" and "0.92 ^ length ts * \<bar>fst vp\<bar> < 0.1"
  shows "fst (foldl (axis_tick e) vp ts) = 0"
proof -
  from assms(2) obtain us u where ts: "ts = us @ [u]"
    by (cases ts rule: rev_cases) auto
  with assms(1) have u: "u = 0" and us: "\<forall>t\<in>set us. t = 0"
    by simp_all
  let ?w = "foldl (axis_tick e) vp us"
  have "0.92 * \<bar>fst ?w\<bar> \<le> 0.92 * (0.92 ^ length us * \<bar>fst vp\<bar>)"
    using foldl_zero_abs [OF us, of e vp] by simp
  also have "\<dots> = 0.92 ^ length ts * \<bar>fst vp\<bar>"
    by (simp add: ts)
  finally have "0.92 * \<bar>fst ?w\<bar> < 0.1"
    using assms(3) by linarith
  then have "fst (axis_tick e ?w 0) = 0"
    by (rule axis_tick_zero_snap)
  then show ?thesis
    by (simp add: ts u)
qed

lemma decay_within_45:
  assumes "\<bar>v\<bar> \<le> max_speed" and "45 \<le> n"
  shows "0.92 ^ n * \<bar>v\<bar> < (0.1::real)"
proof -
  have "(0.92::real) ^ n \<le> 0.92 ^ 45"
    using assms(2) by (intro power_decreasing) simp_all
  moreover have "\<bar>v\<bar> \<le> 4"
    using assms(1) by (simp add: max_speed_def robot_speed_def)
  ultimately have "0.92 ^ n * \<bar>v\<bar> \<le> 0.92 ^ 45 * 4"
    by (intro mult_mono) simp_all
  then show ?thesis
    using decay_threshold(2) by linarith
qed

lemma decay_eventually:
  "\<exists>N>0. \<forall>n\<ge>N. 0.92 ^ n * \<bar>v\<bar> < (0.1::real)"
proof (cases "v = 0")
  case True
  then show ?thesis by (intro exI [of _ 1]) simp
next
  case False
  then have "0 < 0.1 / \<bar>v\<bar>" by simp
  then obtain N where N: "(0.92::real) ^ N < 0.1 / \<bar>v\<bar>"
    using real_arch_pow_inv [of "0.1 / \<bar>v\<bar>" "0.92"] by auto
  have "0.92 ^ n * \<bar>v\<bar> < (0.1::real)" if "Suc N \<le> n" for n
  proof -
    have "(0.92::real) ^ n \<le> 0.92 ^ N"
      using that by (intro power_decreasing) simp_all
    with N have "(0.92::real) ^ n < 0.1 / \<bar>v\<bar>" by linarith
    then show ?thesis
      using False by (simp add: pos_less_divide_eq)
  qed
  then show ?thesis
    by (intro exI [of _ "Suc N"]) simp
qed


subsection \<open>The arena and its walls\<close>

lemma in_arena_iff: "in_arena p \<longleftrightarrow> 20 \<le> fst p \<and> fst p \<le> 780 \<and> 20 \<le> snd p \<and> snd p \<le> 580"
  by (simp add: in_arena_def WIDTH_def HEIGHT_def ROBOT_SIZE_def)

lemma tick_in_arena: "in_arena (robot_pos (tick c s))"
  unfolding in_arena_iff by (rule tick_pos_range)

lemma clear_x_iff: "clear_of_walls_x s \<longleftrightarrow> 20 < fst (robot_pos s) \<and> fst (robot_pos s) < 780"
  by (simp add: clear_of_walls_x_def WIDTH_def ROBOT_SIZE_def)

lemma clear_y_iff: "clear_of_walls_y s \<longleftrightarrow> 20 < snd (robot_pos s) \<and> snd (robot_pos s) < 580"
  by (simp add: clear_of_walls_y_def HEIGHT_def ROBOT_SIZE_def)

text \<open>
  A frame leaves the robot clear of the walls of an axis exactly when neither branch of
  that axis's collision test was taken, and then the velocity is the smoothed one.
\<close>

lemma clear_x_tick:
  "clear_of_walls_x (tick c s) \<longleftrightarrow>
     (let v = smooth (fst (target_vel c)) (fst (robot_velocity s))
      in 20 < fst (robot_pos s) + v \<and> fst (robot_pos s) + v < 780)"
  by (simp add: clear_x_iff tick_pos_x bounce_WIDTH Let_def)

lemma clear_y_tick:
  "clear_of_walls_y (tick c s) \<longleftrightarrow>
     (let v = smooth (snd (target_vel c)) (snd (robot_velocity s))
      in 20 < snd (robot_pos s) + v \<and> snd (robot_pos s) + v < 580)"
  by (simp add: clear_y_iff tick_pos_y bounce_HEIGHT Let_def)

lemma clear_x_vel:
  "clear_of_walls_x (tick c s) \<Longrightarrow>
   fst (robot_velocity (tick c s)) = smooth (fst (target_vel c)) (fst (robot_velocity s))"
  by (simp add: clear_x_tick tick_vel_x bounce_WIDTH Let_def)

lemma clear_y_vel:
  "clear_of_walls_y (tick c s) \<Longrightarrow>
   snd (robot_velocity (tick c s)) = smooth (snd (target_vel c)) (snd (robot_velocity s))"
  by (simp add: clear_y_tick tick_vel_y bounce_HEIGHT Let_def)

subsection \<open>The trail\<close>

lemma tick_trail:
  "trail_points (tick c s) =
     (if moved (robot_pos s) (robot_pos (tick c s))
      then add_to_trail (robot_pos s) (trail_points s) else trail_points s)"
  by (simp add: tick_def Let_def moved_def)

lemma add_to_trail_length: "length t \<le> max_trail \<Longrightarrow> length (add_to_trail p t) \<le> max_trail"
  by (simp add: add_to_trail_def Let_def)

lemma add_to_trail_full:
  "length t = max_trail \<Longrightarrow> add_to_trail p t = tl t @ [p]"
  by (cases t) (simp_all add: add_to_trail_def Let_def max_trail_def)

lemma add_to_trail_room:
  "length t < max_trail \<Longrightarrow> add_to_trail p t = t @ [p]"
  by (simp add: add_to_trail_def Let_def)

lemma tick_trail_length:
  "length (trail_points s) \<le> max_trail \<Longrightarrow> length (trail_points (tick c s)) \<le> max_trail"
  by (simp add: tick_trail add_to_trail_length)

lemma run_trail_length:
  "length (trail_points s) \<le> max_trail \<Longrightarrow> length (trail_points (run cs s)) \<le> max_trail"
  by (induction cs arbitrary: s) (simp_all add: tick_trail_length)

lemma tick_R_init:
  "robot_pos (tick ''R'' init) = (2003 / 5, 300)" "trail_points (tick ''R'' init) = [(400, 300)]"
  "robot_pos init = (400, 300)"
  by (simp_all add: tick_def Let_def init_def target_vel_def smooth_def bounce_def add_to_trail_def
      consts_defs max_trail_def)

lemma run_RSS_init:
  "run [''R'', ''S'', ''S''] init =
     \<lparr>robot_velocity = (1587 / 3125, 0), robot_pos = (1255187 / 3125, 300),
      trail_points = [(400, 300), (2003 / 5, 300), (50144 / 125, 300)]\<rparr>"
  by (simp add: tick_def Let_def init_def target_vel_def smooth_def bounce_def add_to_trail_def
      consts_defs max_trail_def)

lemma run_RSSS_init:
  "run [''R'', ''S'', ''S'', ''S''] init =
     \<lparr>robot_velocity = (36501 / 78125, 0), robot_pos = (31416176 / 78125, 300),
      trail_points = [(400, 300), (2003 / 5, 300), (50144 / 125, 300)]\<rparr>"
  by (simp add: tick_def Let_def init_def target_vel_def smooth_def bounce_def add_to_trail_def
      consts_defs max_trail_def)

subsection \<open>Decay of the whole state\<close>

lemma vel_x_axis: "fst (robot_velocity s) = fst (x_axis s)"
  by (simp add: x_axis_def)

lemma vel_y_axis: "snd (robot_velocity s) = fst (y_axis s)"
  by (simp add: y_axis_def)

lemma smooth_zero_less: "v \<noteq> 0 \<Longrightarrow> \<bar>smooth 0 v\<bar> < \<bar>v\<bar>"
  using smooth_zero_abs [of v] by simp

lemma smooth_zero_sign: "0 \<le> smooth 0 v * v"
  by (simp add: smooth_numeral zero_le_mult_iff) argo

lemma run_zero_x:
  assumes "\<forall>c\<in>set cs. fst (target_vel c) = 0" and "cs \<noteq> []"
    and "0.92 ^ length cs * \<bar>fst (robot_velocity s)\<bar> < 0.1"
  shows "fst (robot_velocity (run cs s)) = 0"
proof -
  have "fst (foldl (axis_tick WIDTH) (x_axis s) (map (\<lambda>c. fst (target_vel c)) cs)) = 0"
    using assms by (intro foldl_zero_snap) (simp_all add: x_axis_def)
  then show ?thesis
    by (simp only: vel_x_axis x_axis_run)
qed

lemma run_zero_y:
  assumes "\<forall>c\<in>set cs. snd (target_vel c) = 0" and "cs \<noteq> []"
    and "0.92 ^ length cs * \<bar>snd (robot_velocity s)\<bar> < 0.1"
  shows "snd (robot_velocity (run cs s)) = 0"
proof -
  have "fst (foldl (axis_tick HEIGHT) (y_axis s) (map (\<lambda>c. snd (target_vel c)) cs)) = 0"
    using assms by (intro foldl_zero_snap) (simp_all add: y_axis_def)
  then show ?thesis
    by (simp only: vel_y_axis y_axis_run)
qed

lemma decay_tick_x:
  assumes "fst (target_vel c) = 0" and "fst (robot_velocity s) \<noteq> 0" and "clear_of_walls_x (tick c s)"
  shows "\<bar>fst (robot_velocity (tick c s))\<bar> < \<bar>fst (robot_velocity s)\<bar>"
    and "0 \<le> fst (robot_velocity (tick c s)) * fst (robot_velocity s)"
  using assms by (simp_all add: clear_x_vel smooth_zero_less smooth_zero_sign)

lemma decay_tick_y:
  assumes "snd (target_vel c) = 0" and "snd (robot_velocity s) \<noteq> 0" and "clear_of_walls_y (tick c s)"
  shows "\<bar>snd (robot_velocity (tick c s))\<bar> < \<bar>snd (robot_velocity s)\<bar>"
    and "0 \<le> snd (robot_velocity (tick c s)) * snd (robot_velocity s)"
  using assms by (simp_all add: clear_y_vel smooth_zero_less smooth_zero_sign)

lemma rest_tick_x:
  "fst (target_vel c) = 0 \<Longrightarrow> fst (robot_velocity s) = 0 \<Longrightarrow> fst (robot_velocity (tick c s)) = 0"
  using run_zero_x [of "[c]" s] by simp

lemma rest_tick_y:
  "snd (target_vel c) = 0 \<Longrightarrow> snd (robot_velocity s) = 0 \<Longrightarrow> snd (robot_velocity (tick c s)) = 0"
  using run_zero_y [of "[c]" s] by simp

lemma decay_run_x:
  assumes "\<forall>c\<in>set cs. fst (target_vel c) = 0" and "\<bar>fst (robot_velocity s)\<bar> \<le> max_speed"
    and "45 \<le> length cs"
  shows "fst (robot_velocity (run cs s)) = 0"
proof (rule run_zero_x)
  show "\<forall>c\<in>set cs. fst (target_vel c) = 0" by fact
  show "cs \<noteq> []" using assms(3) by auto
  show "0.92 ^ length cs * \<bar>fst (robot_velocity s)\<bar> < 0.1"
    using assms(2,3) by (rule decay_within_45)
qed

lemma decay_run_y:
  assumes "\<forall>c\<in>set cs. snd (target_vel c) = 0" and "\<bar>snd (robot_velocity s)\<bar> \<le> max_speed"
    and "45 \<le> length cs"
  shows "snd (robot_velocity (run cs s)) = 0"
proof (rule run_zero_y)
  show "\<forall>c\<in>set cs. snd (target_vel c) = 0" by fact
  show "cs \<noteq> []" using assms(3) by auto
  show "0.92 ^ length cs * \<bar>snd (robot_velocity s)\<bar> < 0.1"
    using assms(2,3) by (rule decay_within_45)
qed

lemma decay_any_x:
  "\<exists>N. \<forall>cs. (\<forall>c\<in>set cs. fst (target_vel c) = 0) \<and> N \<le> length cs \<longrightarrow>
     fst (robot_velocity (run cs s)) = 0"
proof -
  obtain N where N: "0 < N" "\<forall>n\<ge>N. 0.92 ^ n * \<bar>fst (robot_velocity s)\<bar> < (0.1::real)"
    using decay_eventually [of "fst (robot_velocity s)"] by blast
  have "fst (robot_velocity (run cs s)) = 0"
    if "\<forall>c\<in>set cs. fst (target_vel c) = 0" "N \<le> length cs" for cs
  proof (rule run_zero_x)
    show "\<forall>c\<in>set cs. fst (target_vel c) = 0" by fact
    show "cs \<noteq> []" using that(2) N(1) by auto
    show "0.92 ^ length cs * \<bar>fst (robot_velocity s)\<bar> < 0.1"
      using that(2) N(2) by blast
  qed
  then show ?thesis by blast
qed

lemma decay_any_y:
  "\<exists>N. \<forall>cs. (\<forall>c\<in>set cs. snd (target_vel c) = 0) \<and> N \<le> length cs \<longrightarrow>
     snd (robot_velocity (run cs s)) = 0"
proof -
  obtain N where N: "0 < N" "\<forall>n\<ge>N. 0.92 ^ n * \<bar>snd (robot_velocity s)\<bar> < (0.1::real)"
    using decay_eventually [of "snd (robot_velocity s)"] by blast
  have "snd (robot_velocity (run cs s)) = 0"
    if "\<forall>c\<in>set cs. snd (target_vel c) = 0" "N \<le> length cs" for cs
  proof (rule run_zero_y)
    show "\<forall>c\<in>set cs. snd (target_vel c) = 0" by fact
    show "cs \<noteq> []" using that(2) N(1) by auto
    show "0.92 ^ length cs * \<bar>snd (robot_velocity s)\<bar> < 0.1"
      using that(2) N(2) by blast
  qed
  then show ?thesis by blast
qed

subsection \<open>The run Forward, then Stop, from the start\<close>

lemma y_axis_run_append:
  "y_axis (run (cs @ ds) s) = foldl (axis_tick HEIGHT) (y_axis (run cs s)) (map (\<lambda>c. snd (target_vel c)) ds)"
  by (simp only: run_append y_axis_run)

lemma map_replicate_F: "map (\<lambda>c. snd (target_vel c)) (replicate n ''F'') = replicate n (- 4)"
  by (simp add: target_vel_simps)

lemma map_replicate_S: "map (\<lambda>c. snd (target_vel c)) (replicate n ''S'') = replicate n 0"
  by (simp add: target_vel_simps)

lemma fwd_prefix:
  "map (\<lambda>k. y_axis (run (replicate k ''F'') init)) [1..<11] =
     [(- 0.6, 299.4), (- 1.2, 298.2), (- 1.8, 296.4), (- 2.4, 294), (- 3, 291), (- 3.6, 287.4),
      (- 4, 283.4), (- 4, 279.4), (- 4, 275.4), (- 4, 271.4)]"
  unfolding y_axis_run map_replicate_F
  by (simp add: y_axis_init eval_nat_numeral upt_rec axis_tick_HEIGHT smooth_numeral)

lemma fwd72: "y_axis (run (replicate 72 ''F'') init) = (- 4, 117 / 5)"
proof -
  have "replicate 72 ''F'' = replicate 10 ''F'' @ replicate 62 ''F''"
    by (simp add: replicate_add [symmetric])
  then have "y_axis (run (replicate 72 ''F'') init) =
      foldl (axis_tick HEIGHT) (- 4, 1357 / 5) (replicate 62 (- 4))"
    by (simp only: y_axis_run_append fwd10 map_replicate_F)
  also have "\<dots> = (- 4, 1357 / 5 - 4 * real 62)"
    by (rule cruise) simp_all
  finally show ?thesis by simp
qed

lemma stop_after_fwd:
  assumes "n \<le> 44"
  shows "y_axis (run (replicate 10 ''F'' @ replicate n ''S'') init) =
           (- (4 * 0.92 ^ n), 1357 / 5 - 46 * (1 - 0.92 ^ n))"
  unfolding y_axis_run_append fwd10 map_replicate_S
  using assms by (rule decay) simp_all

lemma stopped_after_fwd:
  assumes "45 \<le> n"
  shows "snd (robot_velocity (run (replicate 10 ''F'' @ replicate n ''S'') init)) = 0"
proof -
  have "\<bar>snd (robot_velocity (run (replicate 10 ''F'') init))\<bar> \<le> max_speed"
    using fwd10 by (simp add: y_axis_def max_speed_def robot_speed_def)
  then have "snd (robot_velocity (run (replicate n ''S'') (run (replicate 10 ''F'') init))) = 0"
    using assms by (intro decay_run_y) (simp_all add: target_vel_simps)
  then show ?thesis
    by (simp only: run_append)
qed

lemma smooth_at_target: "smooth t t = t"
  by (simp add: smooth_def Let_def)



section \<open>The claims\<close>

text \<open>
  C1 (velocity bound). Started with velocity \<open>(0, 0)\<close>, at any position and with any
  trail, the loop keeps both components of the velocity within \<open>max_speed\<close> in absolute
  value after every frame, whatever command strings the frames read.
\<close>

theorem velocity_bound:
  "\<bar>fst (robot_velocity (run cs \<lparr>robot_velocity = (0, 0), robot_pos = p, trail_points = t\<rparr>))\<bar> \<le> max_speed \<and>
   \<bar>snd (robot_velocity (run cs \<lparr>robot_velocity = (0, 0), robot_pos = p, trail_points = t\<rparr>))\<bar> \<le> max_speed"
  by (rule run_vel_bound) (simp_all add: max_speed_def robot_speed_def)


text \<open>
  C2 (position bound). If the position starts inside the arena, margins included, it is
  inside the arena after every frame: \<open>ROBOT_SIZE // 2 \<le> x \<le> WIDTH - ROBOT_SIZE // 2\<close> and
  \<open>ROBOT_SIZE // 2 \<le> y \<le> HEIGHT - ROBOT_SIZE // 2\<close>.
\<close>

theorem position_bound:
  assumes "in_arena (robot_pos s)"
  shows "in_arena (robot_pos (run cs s))"
proof (cases cs rule: rev_cases)
  case Nil
  with assms show ?thesis by simp
next
  case (snoc ds d)
  then show ?thesis by (simp only: run_snoc tick_in_arena)
qed

theorem position_bound_witness:
  "in_arena (robot_pos init) \<and> in_arena (robot_pos (run [''F'', ''L'', ''X''] init))"
proof -
  have h: "in_arena (robot_pos init)"
    by (simp add: in_arena_iff init_def WIDTH_def HEIGHT_def)
  show ?thesis using h position_bound [OF h, of "[''F'', ''L'', ''X'']"] by simp
qed

text \<open>
  C3 (collision law). Let \<open>vx\<close> and \<open>vy\<close> be the velocities the frame integrates, that is
  the velocities just before the collision tests. If \<open>vx > 0\<close> takes the x position to
  or past the far edge \<open>WIDTH - ROBOT_SIZE // 2\<close>, the frame ends with x velocity
  \<open>- 0.7 * \<bar>vx\<bar>\<close>, which is negative, and with x position exactly on that edge; if
  \<open>vx < 0\<close> takes it to or past the near edge \<open>ROBOT_SIZE // 2\<close>, the frame ends with x
  velocity \<open>0.7 * \<bar>vx\<bar>\<close>, positive, and x position exactly on the near edge. The same
  holds on the y axis with \<open>HEIGHT\<close>.
\<close>

theorem collision_law:
  assumes "vx = smooth (fst (target_vel c)) (fst (robot_velocity s))"
    and "vy = smooth (snd (target_vel c)) (snd (robot_velocity s))"
  shows
    "(0 < vx \<and> of_int (WIDTH - ROBOT_SIZE div 2) \<le> fst (robot_pos s) + vx \<longrightarrow>
        fst (robot_velocity (tick c s)) = - (0.7 * \<bar>vx\<bar>) \<and>
        fst (robot_velocity (tick c s)) < 0 \<and>
        fst (robot_pos (tick c s)) = of_int (WIDTH - ROBOT_SIZE div 2)) \<and>
     (vx < 0 \<and> fst (robot_pos s) + vx \<le> of_int (ROBOT_SIZE div 2) \<longrightarrow>
        fst (robot_velocity (tick c s)) = 0.7 * \<bar>vx\<bar> \<and>
        0 < fst (robot_velocity (tick c s)) \<and>
        fst (robot_pos (tick c s)) = of_int (ROBOT_SIZE div 2)) \<and>
     (0 < vy \<and> of_int (HEIGHT - ROBOT_SIZE div 2) \<le> snd (robot_pos s) + vy \<longrightarrow>
        snd (robot_velocity (tick c s)) = - (0.7 * \<bar>vy\<bar>) \<and>
        snd (robot_velocity (tick c s)) < 0 \<and>
        snd (robot_pos (tick c s)) = of_int (HEIGHT - ROBOT_SIZE div 2)) \<and>
     (vy < 0 \<and> snd (robot_pos s) + vy \<le> of_int (ROBOT_SIZE div 2) \<longrightarrow>
        snd (robot_velocity (tick c s)) = 0.7 * \<bar>vy\<bar> \<and>
        0 < snd (robot_velocity (tick c s)) \<and>
        snd (robot_pos (tick c s)) = of_int (ROBOT_SIZE div 2))"
proof -
  have x: "fst (robot_velocity (tick c s)) = snd (bounce WIDTH (fst (robot_pos s) + vx) vx)"
    "fst (robot_pos (tick c s)) = fst (bounce WIDTH (fst (robot_pos s) + vx) vx)"
    by (simp_all only: tick_vel_x tick_pos_x assms)
  have y: "snd (robot_velocity (tick c s)) = snd (bounce HEIGHT (snd (robot_pos s) + vy) vy)"
    "snd (robot_pos (tick c s)) = fst (bounce HEIGHT (snd (robot_pos s) + vy) vy)"
    by (simp_all only: tick_vel_y tick_pos_y assms)
  have far_x: "0 < vx \<and> of_int (WIDTH - ROBOT_SIZE div 2) \<le> fst (robot_pos s) + vx \<longrightarrow>
        fst (robot_velocity (tick c s)) = - (0.7 * \<bar>vx\<bar>) \<and>
        fst (robot_velocity (tick c s)) < 0 \<and>
        fst (robot_pos (tick c s)) = of_int (WIDTH - ROBOT_SIZE div 2)"
    unfolding x by (simp add: bounce_def WIDTH_def ROBOT_SIZE_def)
  have near_x: "vx < 0 \<and> fst (robot_pos s) + vx \<le> of_int (ROBOT_SIZE div 2) \<longrightarrow>
        fst (robot_velocity (tick c s)) = 0.7 * \<bar>vx\<bar> \<and>
        0 < fst (robot_velocity (tick c s)) \<and>
        fst (robot_pos (tick c s)) = of_int (ROBOT_SIZE div 2)"
    unfolding x by (simp add: bounce_def WIDTH_def ROBOT_SIZE_def)
  have far_y: "0 < vy \<and> of_int (HEIGHT - ROBOT_SIZE div 2) \<le> snd (robot_pos s) + vy \<longrightarrow>
        snd (robot_velocity (tick c s)) = - (0.7 * \<bar>vy\<bar>) \<and>
        snd (robot_velocity (tick c s)) < 0 \<and>
        snd (robot_pos (tick c s)) = of_int (HEIGHT - ROBOT_SIZE div 2)"
    unfolding y by (simp add: bounce_def HEIGHT_def ROBOT_SIZE_def)
  have near_y: "vy < 0 \<and> snd (robot_pos s) + vy \<le> of_int (ROBOT_SIZE div 2) \<longrightarrow>
        snd (robot_velocity (tick c s)) = 0.7 * \<bar>vy\<bar> \<and>
        0 < snd (robot_velocity (tick c s)) \<and>
        snd (robot_pos (tick c s)) = of_int (ROBOT_SIZE div 2)"
    unfolding y by (simp add: bounce_def HEIGHT_def ROBOT_SIZE_def)
  from far_x near_x far_y near_y show ?thesis by blast
qed


theorem collision_law_witness:
  "smooth (fst (target_vel ''S'')) 3 = 69 / 25 \<and>
   robot_velocity (tick ''S'' \<lparr>robot_velocity = (3, 3), robot_pos = (779, 579), trail_points = []\<rparr>)
     = (- (0.7 * \<bar>69 / 25\<bar>), - (0.7 * \<bar>69 / 25\<bar>)) \<and>
   robot_pos (tick ''S'' \<lparr>robot_velocity = (3, 3), robot_pos = (779, 579), trail_points = []\<rparr>)
     = (of_int (WIDTH - ROBOT_SIZE div 2), of_int (HEIGHT - ROBOT_SIZE div 2)) \<and>
   smooth (fst (target_vel ''S'')) (- 3) = - (69 / 25) \<and>
   robot_velocity (tick ''S'' \<lparr>robot_velocity = (- 3, - 3), robot_pos = (21, 21), trail_points = []\<rparr>)
     = (0.7 * \<bar>- (69 / 25)\<bar>, 0.7 * \<bar>- (69 / 25)\<bar>) \<and>
   robot_pos (tick ''S'' \<lparr>robot_velocity = (- 3, - 3), robot_pos = (21, 21), trail_points = []\<rparr>)
     = (of_int (ROBOT_SIZE div 2), of_int (ROBOT_SIZE div 2))"
proof -
  let ?far = "\<lparr>robot_velocity = (3, 3), robot_pos = (779, 579), trail_points = []\<rparr>"
  let ?near = "\<lparr>robot_velocity = (- 3, - 3), robot_pos = (21, 21), trail_points = []\<rparr>"
  have t: "target_vel ''S'' = (0, 0)"
    by (simp add: target_vel_def)
  have up: "smooth 0 3 = 69 / 25" and down: "smooth 0 (- 3) = - (69 / 25)"
    by (simp_all add: smooth_def Let_def friction_def)
  have fx: "69 / 25 = smooth (fst (target_vel ''S'')) (fst (robot_velocity ?far))"
    and fy: "69 / 25 = smooth (snd (target_vel ''S'')) (snd (robot_velocity ?far))"
    and nx: "- (69 / 25) = smooth (fst (target_vel ''S'')) (fst (robot_velocity ?near))"
    and ny: "- (69 / 25) = smooth (snd (target_vel ''S'')) (snd (robot_velocity ?near))"
    by (simp_all add: t up down)
  show ?thesis
    using collision_law [OF fx fy] collision_law [OF nx ny]
    by (simp add: t up down WIDTH_def HEIGHT_def ROBOT_SIZE_def prod_eq_iff)
qed

text \<open>
  C4 (decay law). On an axis whose target is zero (both axes under Stop, and also the axis
  a direction command does not name), a frame that takes no collision branch on that axis
  makes a nonzero velocity strictly smaller in absolute value and never flips its sign
  (the product of old and new velocity is not negative); a zero velocity stays zero. The
  velocity is exactly zero after a bounded number of such frames and stays zero: after
  any 45 or more of them when it starts within \<open>max_speed\<close>, as every reachable velocity
  does, and after some finite number of them from any start. The last two parts hold
  with or without collisions.
\<close>

theorem decay_law:
  "(fst (target_vel c) = 0 \<and> fst (robot_velocity s) \<noteq> 0 \<and> clear_of_walls_x (tick c s) \<longrightarrow>
      \<bar>fst (robot_velocity (tick c s))\<bar> < \<bar>fst (robot_velocity s)\<bar> \<and>
      0 \<le> fst (robot_velocity (tick c s)) * fst (robot_velocity s)) \<and>
   (snd (target_vel c) = 0 \<and> snd (robot_velocity s) \<noteq> 0 \<and> clear_of_walls_y (tick c s) \<longrightarrow>
      \<bar>snd (robot_velocity (tick c s))\<bar> < \<bar>snd (robot_velocity s)\<bar> \<and>
      0 \<le> snd (robot_velocity (tick c s)) * snd (robot_velocity s)) \<and>
   (fst (target_vel c) = 0 \<and> fst (robot_velocity s) = 0 \<longrightarrow> fst (robot_velocity (tick c s)) = 0) \<and>
   (snd (target_vel c) = 0 \<and> snd (robot_velocity s) = 0 \<longrightarrow> snd (robot_velocity (tick c s)) = 0) \<and>
   ((\<forall>c\<in>set cs. fst (target_vel c) = 0) \<and> \<bar>fst (robot_velocity s)\<bar> \<le> max_speed \<and> 45 \<le> length cs \<longrightarrow>
      fst (robot_velocity (run cs s)) = 0) \<and>
   ((\<forall>c\<in>set cs. snd (target_vel c) = 0) \<and> \<bar>snd (robot_velocity s)\<bar> \<le> max_speed \<and> 45 \<le> length cs \<longrightarrow>
      snd (robot_velocity (run cs s)) = 0) \<and>
   (\<exists>N. \<forall>ds. (\<forall>c\<in>set ds. fst (target_vel c) = 0) \<and> N \<le> length ds \<longrightarrow>
      fst (robot_velocity (run ds s)) = 0) \<and>
   (\<exists>N. \<forall>ds. (\<forall>c\<in>set ds. snd (target_vel c) = 0) \<and> N \<le> length ds \<longrightarrow>
      snd (robot_velocity (run ds s)) = 0)"
  using decay_tick_x [of c s] decay_tick_y [of c s] rest_tick_x [of c s] rest_tick_y [of c s]
    decay_run_x [of cs s] decay_run_y [of cs s] decay_any_x [of s] decay_any_y [of s]
  by blast


theorem decay_law_witness:
  "(let s = \<lparr>robot_velocity = (2, - 3), robot_pos = (400, 300), trail_points = []\<rparr>;
        s' = tick ''S'' s
    in target_vel ''S'' = (0, 0) \<and> clear_of_walls_x s' \<and> clear_of_walls_y s' \<and>
       \<bar>fst (robot_velocity s')\<bar> < \<bar>fst (robot_velocity s)\<bar> \<and>
       0 \<le> fst (robot_velocity s') * fst (robot_velocity s) \<and>
       \<bar>snd (robot_velocity s')\<bar> < \<bar>snd (robot_velocity s)\<bar> \<and>
       0 \<le> snd (robot_velocity s') * snd (robot_velocity s) \<and>
       \<bar>fst (robot_velocity s)\<bar> \<le> max_speed \<and> \<bar>snd (robot_velocity s)\<bar> \<le> max_speed \<and>
       45 \<le> length (replicate 45 ''S'') \<and>
       robot_velocity (run (replicate 45 ''S'') s) = (0, 0)) \<and>
   robot_velocity init = (0, 0) \<and> robot_velocity (tick ''S'' init) = (0, 0)"
proof -
  let ?s = "\<lparr>robot_velocity = (2, - 3), robot_pos = (400, 300), trail_points = []\<rparr>"
  have t: "target_vel ''S'' = (0, 0)"
    by (simp add: target_vel_def)
  have clear: "clear_of_walls_x (tick ''S'' ?s)" "clear_of_walls_y (tick ''S'' ?s)"
    by (simp_all add: clear_x_tick clear_y_tick t smooth_numeral)
  have i: "robot_velocity init = (0, 0)"
    by (simp add: init_def)
  show ?thesis
    using decay_law [of "''S''" ?s "replicate 45 ''S''"] decay_law [of "''S''" init "[]"] clear
    by (simp add: Let_def t i max_speed_def robot_speed_def prod_eq_iff) linarith
qed

text \<open>
  C5 (scenario), as the claim states it: ten Forward frames from the start, then Stop
  frames, with the y velocity exactly 0 before the 30th Stop frame. The code does not do
  this: after 29 and after 30 Stop frames the y velocity is \<open>- 4 * 0.92 ^ 29\<close> and
  \<open>- 4 * 0.92 ^ 30\<close> (about -0.36 and -0.33), not 0.
\<close>

theorem stop_before_30_counterexample:
  "snd (robot_velocity (run (replicate 10 ''F'' @ replicate 29 ''S'') init)) = - (4 * 0.92 ^ 29) \<and>
   snd (robot_velocity (run (replicate 10 ''F'' @ replicate 30 ''S'') init)) = - (4 * 0.92 ^ 30) \<and>
   - (4 * 0.92 ^ 29) \<noteq> (0::real) \<and> - (4 * 0.92 ^ 30) \<noteq> (0::real)"
  using stop_after_fwd [of 29] stop_after_fwd [of 30]
  by (simp add: y_axis_def)

text \<open>
  C5 (scenario), amended. From velocity \<open>(0, 0)\<close> and position \<open>(400, 300)\<close>, with
  \<open>max_speed = 4\<close>, \<open>acceleration = 0.6\<close> and \<open>friction = 0.92\<close>, ten Forward frames end
  with y velocity exactly \<open>- 4\<close>, the y velocities of the ten frames being \<open>- 0.6\<close>,
  \<open>- 1.2\<close>, \<open>- 1.8\<close>, \<open>- 2.4\<close>, \<open>- 3\<close>, \<open>- 3.6\<close> and then four times \<open>- 4\<close>, and with the
  y position lowered by their sum, from 300 to exactly 271.4. In the Stop frames that
  follow, the y velocity is
  \<open>- 4 * 0.92 ^ k\<close> after \<open>k \<le> 44\<close> frames, so not yet 0, and exactly 0 after 45 or more.
\<close>

theorem forward_stop_scenario:
  assumes "k \<le> 44" and "45 \<le> j"
  shows "robot_velocity init = (0, 0) \<and> robot_pos init = (400, 300) \<and>
     max_speed = 4 \<and> acceleration = 0.6 \<and> friction = 0.92 \<and>
     snd (robot_velocity (run (replicate 10 ''F'') init)) = - 4 \<and>
     map (\<lambda>i. snd (robot_velocity (run (replicate i ''F'') init))) [1..<11] =
       [- 0.6, - 1.2, - 1.8, - 2.4, - 3, - 3.6, - 4, - 4, - 4, - 4] \<and>
     snd (robot_pos (run (replicate 10 ''F'') init)) =
       snd (robot_pos init) + (\<Sum>i\<leftarrow>[1..<11]. snd (robot_velocity (run (replicate i ''F'') init))) \<and>
     snd (robot_pos (run (replicate 10 ''F'') init)) = 271.4 \<and>
     snd (robot_velocity (run (replicate 10 ''F'' @ replicate k ''S'') init)) = - (4 * 0.92 ^ k) \<and>
     snd (robot_velocity (run (replicate 10 ''F'' @ replicate k ''S'') init)) \<noteq> 0 \<and>
     snd (robot_velocity (run (replicate 10 ''F'' @ replicate j ''S'') init)) = 0"
proof -
  have vs: "map (\<lambda>i. snd (robot_velocity (run (replicate i ''F'') init))) [1..<11] =
      map fst (map (\<lambda>k. y_axis (run (replicate k ''F'') init)) [1..<11])"
    by (simp add: y_axis_def)
  have each: "map (\<lambda>i. snd (robot_velocity (run (replicate i ''F'') init))) [1..<11] =
      [- 0.6, - 1.2, - 1.8, - 2.4, - 3, - 3.6, - 4, - 4, - 4, - 4]"
    unfolding vs fwd_prefix by simp
  have sum: "(\<Sum>i\<leftarrow>[1..<11]. snd (robot_velocity (run (replicate i ''F'') init))) = - (143 / 5)"
    unfolding each by simp
  have ten: "snd (robot_velocity (run (replicate 10 ''F'') init)) = - 4"
    "snd (robot_pos (run (replicate 10 ''F'') init)) = 1357 / 5"
    using fwd10 by (simp_all add: y_axis_def)
  have k: "snd (robot_velocity (run (replicate 10 ''F'' @ replicate k ''S'') init)) = - (4 * 0.92 ^ k)"
    using stop_after_fwd [OF assms(1)] by (simp add: y_axis_def)
  have j: "snd (robot_velocity (run (replicate 10 ''F'' @ replicate j ''S'') init)) = 0"
    using assms(2) by (rule stopped_after_fwd)
  have i: "robot_velocity init = (0, 0)" "robot_pos init = (400, 300)"
    by (simp_all add: init_def WIDTH_def HEIGHT_def)
  have c: "max_speed = 4" "acceleration = 0.6" "friction = 0.92"
    by (simp_all add: consts_defs)
  show ?thesis
    unfolding each sum ten k j i c by simp
qed

theorem forward_stop_scenario_witness:
  "(30::nat) \<le> 44 \<and> (45::nat) \<le> 45 \<and>
   snd (robot_velocity (run (replicate 10 ''F'') init)) = - 4 \<and>
   map (\<lambda>i. snd (robot_velocity (run (replicate i ''F'') init))) [1..<11] =
     [- 0.6, - 1.2, - 1.8, - 2.4, - 3, - 3.6, - 4, - 4, - 4, - 4] \<and>
   snd (robot_pos (run (replicate 10 ''F'') init)) =
     snd (robot_pos init) + (\<Sum>i\<leftarrow>[1..<11]. snd (robot_velocity (run (replicate i ''F'') init))) \<and>
   snd (robot_pos (run (replicate 10 ''F'') init)) = 271.4 \<and>
   snd (robot_velocity (run (replicate 10 ''F'' @ replicate 30 ''S'') init)) = - (4 * 0.92 ^ 30) \<and>
   snd (robot_velocity (run (replicate 10 ''F'' @ replicate 30 ''S'') init)) \<noteq> 0 \<and>
   snd (robot_velocity (run (replicate 10 ''F'' @ replicate 45 ''S'') init)) = 0"
proof -
  have k: "(30::nat) \<le> 44" and j: "(45::nat) \<le> 45"
    by simp_all
  show ?thesis
    using k j forward_stop_scenario [OF k j] by blast
qed

text \<open>
  C6 (trail capacity, first in first out). A trail within its capacity \<open>max_trail\<close> (150)
  stays within it after one frame and after any run of frames. A frame that appends (the
  robot moved) to a full trail drops exactly the oldest entry and keeps the others in
  order, with the new entry last; a frame that appends to a trail with room left only
  adds the new entry at the end.
\<close>

theorem trail_capacity_fifo:
  assumes "length (trail_points s) \<le> max_trail"
  shows "length (trail_points (run cs s)) \<le> max_trail \<and>
         length (trail_points (tick c s)) \<le> max_trail \<and>
         (moved (robot_pos s) (robot_pos (tick c s)) \<and> length (trail_points s) = max_trail \<longrightarrow>
            trail_points (tick c s) = tl (trail_points s) @ [robot_pos s]) \<and>
         (moved (robot_pos s) (robot_pos (tick c s)) \<and> length (trail_points s) < max_trail \<longrightarrow>
            trail_points (tick c s) = trail_points s @ [robot_pos s])"
proof -
  have "length (trail_points (run cs s)) \<le> max_trail"
    using assms by (rule run_trail_length)
  moreover have "length (trail_points (tick c s)) \<le> max_trail"
    using assms by (rule tick_trail_length)
  moreover have "trail_points (tick c s) = tl (trail_points s) @ [robot_pos s]"
    if "moved (robot_pos s) (robot_pos (tick c s))" "length (trail_points s) = max_trail"
    using that by (simp add: tick_trail add_to_trail_full)
  moreover have "trail_points (tick c s) = trail_points s @ [robot_pos s]"
    if "moved (robot_pos s) (robot_pos (tick c s))" "length (trail_points s) < max_trail"
    using that by (simp add: tick_trail add_to_trail_room)
  ultimately show ?thesis by blast
qed

theorem trail_capacity_fifo_witness:
  "(let s = \<lparr>robot_velocity = (0, 0), robot_pos = (400, 300), trail_points = replicate 150 (1, 1)\<rparr>
    in length (trail_points s) = max_trail \<and>
       moved (robot_pos s) (robot_pos (tick ''R'' s)) \<and>
       trail_points (tick ''R'' s) = tl (trail_points s) @ [robot_pos s] \<and>
       length (trail_points (tick ''R'' s)) \<le> max_trail \<and>
       length (trail_points (run [''R'', ''R'', ''S''] s)) \<le> max_trail) \<and>
   length (trail_points init) < max_trail \<and>
   moved (robot_pos init) (robot_pos (tick ''R'' init)) \<and>
   trail_points (tick ''R'' init) = trail_points init @ [robot_pos init]"
proof -
  let ?s = "\<lparr>robot_velocity = (0, 0), robot_pos = (400, 300), trail_points = replicate 150 (1, 1)\<rparr>"
  have full: "length (trail_points ?s) \<le> max_trail" and room: "length (trail_points init) \<le> max_trail"
    by (simp_all add: max_trail_def init_def)
  have pos: "robot_pos (tick ''R'' ?s) = (2003 / 5, 300)"
    by (simp add: prod_eq_iff tick_pos_x tick_pos_y target_vel_simps smooth_numeral bounce_WIDTH
        bounce_HEIGHT)
  have m: "moved (robot_pos ?s) (robot_pos (tick ''R'' ?s))"
    "moved (robot_pos init) (robot_pos (tick ''R'' init))"
    by (simp_all add: pos tick_R_init moved_def)
  show ?thesis
    using trail_capacity_fifo [OF full, of "[''R'', ''R'', ''S'']" "''R''"]
      trail_capacity_fifo [OF room, of "[]" "''R''"] m
    by (simp add: Let_def max_trail_def init_def)
qed

text \<open>
  C7 (trail recording), as the claim states it: each frame records the robot's new
  position. The code does not: in the first frame under \<open>R\<close> the robot moves from
  \<open>(400, 300)\<close> to \<open>(400.6, 300)\<close> and the trail receives \<open>(400, 300)\<close>, the position
  before the frame. Nor is the distance taken from the last recorded point: the fourth
  frame of the run \<open>R\<close>, \<open>S\<close>, \<open>S\<close>, \<open>S\<close> ends 0.975 away from the last recorded point
  and appends nothing, since the frame itself moved the robot by less than 0.5.
\<close>

theorem trail_records_new_position_counterexample:
  "moved (robot_pos init) (robot_pos (tick ''R'' init)) \<and>
   trail_points (tick ''R'' init) = [robot_pos init] \<and>
   trail_points (tick ''R'' init) \<noteq> trail_points init @ [robot_pos (tick ''R'' init)] \<and>
   last (trail_points (run [''R'', ''S'', ''S''] init)) = (50144 / 125, 300) \<and>
   robot_pos (run [''R'', ''S'', ''S'', ''S''] init) = (31416176 / 78125, 300) \<and>
   31416176 / 78125 - 50144 / 125 > (0.5::real) \<and>
   trail_points (run [''R'', ''S'', ''S'', ''S''] init) = trail_points (run [''R'', ''S'', ''S''] init)"
  unfolding run_RSS_init run_RSSS_init
  by (simp add: tick_R_init moved_def)

text \<open>
  C7 (trail recording), amended. A frame appends the position the robot had before the
  frame, and it does so exactly when the frame's own displacement (new position against
  the position before the frame, not against the last recorded point) is more than 0.5
  on the x axis or more than 0.5 on the y axis; past capacity the oldest entry goes.
  Otherwise the trail is unchanged.
\<close>

theorem trail_recording_rule:
  "trail_points (tick c s) =
     (if \<bar>fst (robot_pos (tick c s)) - fst (robot_pos s)\<bar> > 0.5 \<or>
         \<bar>snd (robot_pos (tick c s)) - snd (robot_pos s)\<bar> > 0.5
      then (if length (trail_points s) < max_trail then trail_points s @ [robot_pos s]
            else tl (trail_points s @ [robot_pos s]))
      else trail_points s)"
  by (simp add: tick_def Let_def add_to_trail_def)

text \<open>
  C8 (unrecognized command), as the claim states it: a token outside the five commands
  is stored as \<open>S\<close>. The code stores the token \<open>X\<close> as it came.
\<close>

theorem unrecognized_command_counterexample:
  "fst (receive_command [''cmd'' \<mapsto> ''X''] 0 ''S'') = ''X'' \<and> ''X'' \<notin> valid_commands"
  by (simp add: receive_command_def args_get_def valid_commands_def Let_def)

text \<open>
  C8 (unrecognized command), amended. \<open>receive_command\<close> never faults and stores the
  received token as it is, without validation; only a request with no \<open>cmd\<close> argument
  stores \<open>S\<close>. The answer echoes the stored command. So the stored command is one of the
  five valid values exactly when the request carried no token or a valid one.
\<close>

theorem receive_command_verbatim:
  "fst (receive_command args now robot_command) =
     (case args ''cmd'' of None \<Rightarrow> ''S'' | Some tok \<Rightarrow> tok) \<and>
   command (snd (receive_command args now robot_command)) = fst (receive_command args now robot_command) \<and>
   (fst (receive_command args now robot_command) \<in> valid_commands \<longleftrightarrow>
      (case args ''cmd'' of None \<Rightarrow> True | Some tok \<Rightarrow> tok \<in> valid_commands))"
  by (simp add: receive_command_def args_get_def valid_commands_def Let_def split: option.split)

text \<open>
  C9 (steady state), as the claim states it: once an axis's velocity equals the command's
  target, another frame under the same command leaves it unchanged. After 72 Forward
  frames from the start the y velocity is the target \<open>- 4\<close> and the robot is at
  \<open>y = 23.4\<close>; the 73rd Forward frame takes it to the wall and leaves the y velocity
  \<open>2.8\<close>.
\<close>

theorem steady_state_counterexample:
  "snd (robot_velocity (run (replicate 72 ''F'') init)) = snd (target_vel ''F'') \<and>
   snd (robot_velocity (run (replicate 72 ''F'') init)) = - 4 \<and>
   snd (robot_velocity (tick ''F'' (run (replicate 72 ''F'') init))) = 14 / 5"
proof -
  have "y_axis (tick ''F'' (run (replicate 72 ''F'') init)) = axis_tick HEIGHT (- 4, 117 / 5) (- 4)"
    by (simp only: y_axis_tick fwd72 target_vel_simps snd_conv)
  also have "\<dots> = (14 / 5, 20)"
    by (simp add: axis_tick_HEIGHT smooth_numeral)
  finally show ?thesis
    using fwd72 by (simp add: y_axis_def target_vel_simps)
qed

text \<open>
  C9 (steady state), amended. If an axis's velocity equals the command's target for that
  axis, the velocity update of the frame leaves it unchanged, and so does the whole
  frame provided the frame takes no collision branch on that axis. This holds for every
  command, the four direction commands among them.
\<close>

theorem steady_state:
  "(fst (robot_velocity s) = fst (target_vel c) \<longrightarrow>
      smooth (fst (target_vel c)) (fst (robot_velocity s)) = fst (robot_velocity s)) \<and>
   (snd (robot_velocity s) = snd (target_vel c) \<longrightarrow>
      smooth (snd (target_vel c)) (snd (robot_velocity s)) = snd (robot_velocity s)) \<and>
   (fst (robot_velocity s) = fst (target_vel c) \<and> clear_of_walls_x (tick c s) \<longrightarrow>
      fst (robot_velocity (tick c s)) = fst (robot_velocity s)) \<and>
   (snd (robot_velocity s) = snd (target_vel c) \<and> clear_of_walls_y (tick c s) \<longrightarrow>
      snd (robot_velocity (tick c s)) = snd (robot_velocity s))"
  by (simp add: clear_x_vel clear_y_vel smooth_at_target)


theorem steady_state_witness:
  "(let s = \<lparr>robot_velocity = (0, - 4), robot_pos = (400, 300), trail_points = []\<rparr>
    in robot_velocity s = target_vel ''F'' \<and>
       clear_of_walls_x (tick ''F'' s) \<and> clear_of_walls_y (tick ''F'' s) \<and>
       smooth (fst (target_vel ''F'')) (fst (robot_velocity s)) = fst (robot_velocity s) \<and>
       smooth (snd (target_vel ''F'')) (snd (robot_velocity s)) = snd (robot_velocity s) \<and>
       robot_velocity (tick ''F'' s) = robot_velocity s)"
proof -
  let ?s = "\<lparr>robot_velocity = (0, - 4), robot_pos = (400, 300), trail_points = []\<rparr>"
  have clear: "clear_of_walls_x (tick ''F'' ?s)" "clear_of_walls_y (tick ''F'' ?s)"
    by (simp_all add: clear_x_tick clear_y_tick target_vel_simps smooth_numeral)
  show ?thesis
    using steady_state [of ?s "''F''"] clear
    by (simp add: Let_def target_vel_simps prod_eq_iff)
qed

text \<open>
  C10 (commands outside F, B, L, R). A command string that is none of \<open>F\<close>, \<open>B\<close>, \<open>L\<close>,
  \<open>R\<close> has target velocity \<open>(0, 0)\<close>, as \<open>S\<close> has, and a frame under it ends with the
  same velocity and position as the frame under \<open>S\<close> from the same state; the trail is
  the same too.
\<close>

theorem unknown_command_is_stop:
  assumes "c \<notin> {''F'', ''B'', ''L'', ''R''}"
  shows "target_vel c = (0, 0) \<and> target_vel ''S'' = (0, 0) \<and>
         robot_velocity (tick c s) = robot_velocity (tick ''S'' s) \<and>
         robot_pos (tick c s) = robot_pos (tick ''S'' s) \<and>
         tick c s = tick ''S'' s"
proof -
  have "target_vel c = (0, 0)" and "target_vel ''S'' = (0, 0)"
    using assms by (simp_all add: target_vel_def)
  then show ?thesis
    by (simp add: tick_def)
qed

theorem unknown_command_is_stop_witness:
  "''X'' \<notin> {''F'', ''B'', ''L'', ''R''} \<and> target_vel ''X'' = (0, 0) \<and>
   robot_velocity (tick ''X'' \<lparr>robot_velocity = (3, - 2), robot_pos = (100, 200), trail_points = []\<rparr>)
     = robot_velocity (tick ''S'' \<lparr>robot_velocity = (3, - 2), robot_pos = (100, 200), trail_points = []\<rparr>) \<and>
   robot_pos (tick ''X'' \<lparr>robot_velocity = (3, - 2), robot_pos = (100, 200), trail_points = []\<rparr>)
     = robot_pos (tick ''S'' \<lparr>robot_velocity = (3, - 2), robot_pos = (100, 200), trail_points = []\<rparr>)"
proof -
  have h: "''X'' \<notin> {''F'', ''B'', ''L'', ''R''}" by simp
  show ?thesis
    using h unknown_command_is_stop [OF h] by simp
qed


end
